theory Spec2Isabelle
  imports Main "HOL-Library.Word"
begin

section \<open>Data model (frontend/src/types/index.ts)\<close>

text \<open>
  A JavaScript string is a sequence of UTF-16 code units: \<open>length\<close> and \<open>slice\<close> count
  code units. A value of type \<open>string | null\<close> (or an optional \<open>string\<close> field) is a
  \<open>jsstring option\<close>, with \<open>None\<close> for \<open>null\<close> / \<open>undefined\<close>.
\<close>

type_synonym jsstring = "16 word list"

datatype ProcessingStatus = Pending | Processing | Completed | Failed

datatype ChatMode = Auto | Manual

datatype Role = User | Assistant

record ChatMessage =
  role :: Role
  content :: jsstring
  timestamp :: jsstring
  msg_audio_url :: "jsstring option"
  msg_video_url :: "jsstring option"

text \<open>The data fields of \<open>AppState\<close>; its actions are the functions of the next section.\<close>

record AppState =
  voiceId :: "jsstring option"
  cloneId :: "jsstring option"
  imageId :: "jsstring option"
  isReady :: bool
  mode :: ChatMode
  conversationId :: "jsstring option"
  messages :: "ChatMessage list"
  isLoading :: bool
  currentVideoUrl :: "jsstring option"
  currentAudioUrl :: "jsstring option"

text \<open>
  JavaScript truthiness of a \<open>string | null | undefined\<close> value, as tested by
  \<open>if (url)\<close>, \<open>url ? a : b\<close> and \<open>url && e\<close>: \<open>null\<close>, \<open>undefined\<close> and the empty string
  are falsy.
\<close>

fun truthy :: "jsstring option \<Rightarrow> bool" where
  "truthy None = False"
| "truthy (Some u) = (u \<noteq> [])"

section \<open>The store (frontend/src/stores/useAppStore.ts)\<close>

definition initialState :: AppState where
  "initialState =
     \<lparr> voiceId = None, cloneId = None, imageId = None, isReady = False,
       mode = Auto, conversationId = None, messages = [], isLoading = False,
       currentVideoUrl = None, currentAudioUrl = None \<rparr>"

text \<open>
  Each action is \<open>set(partial)\<close> or \<open>set((state) => partial)\<close>: the fields of the partial
  object overwrite those of the state, every other field is kept.
\<close>

definition setVoiceId :: "jsstring option \<Rightarrow> AppState \<Rightarrow> AppState" where
  "setVoiceId id' state =
     state\<lparr> voiceId := id',
            isReady := (id' \<noteq> None \<and> cloneId state \<noteq> None \<and> imageId state \<noteq> None) \<rparr>"

definition setCloneId :: "jsstring option \<Rightarrow> AppState \<Rightarrow> AppState" where
  "setCloneId id' state =
     state\<lparr> cloneId := id',
            isReady := (voiceId state \<noteq> None \<and> id' \<noteq> None \<and> imageId state \<noteq> None) \<rparr>"

definition setImageId :: "jsstring option \<Rightarrow> AppState \<Rightarrow> AppState" where
  "setImageId id' state =
     state\<lparr> imageId := id',
            isReady := (voiceId state \<noteq> None \<and> cloneId state \<noteq> None \<and> id' \<noteq> None) \<rparr>"

definition setMode :: "ChatMode \<Rightarrow> AppState \<Rightarrow> AppState" where
  "setMode m state = state\<lparr> mode := m \<rparr>"

definition addMessage :: "ChatMessage \<Rightarrow> AppState \<Rightarrow> AppState" where
  "addMessage message state = state\<lparr> messages := messages state @ [message] \<rparr>"

definition setMessages :: "ChatMessage list \<Rightarrow> AppState \<Rightarrow> AppState" where
  "setMessages ms state = state\<lparr> messages := ms \<rparr>"

definition setIsLoading :: "bool \<Rightarrow> AppState \<Rightarrow> AppState" where
  "setIsLoading loading state = state\<lparr> isLoading := loading \<rparr>"

definition setCurrentVideo :: "jsstring option \<Rightarrow> AppState \<Rightarrow> AppState" where
  "setCurrentVideo url state = state\<lparr> currentVideoUrl := url \<rparr>"

definition setCurrentAudio :: "jsstring option \<Rightarrow> AppState \<Rightarrow> AppState" where
  "setCurrentAudio url state = state\<lparr> currentAudioUrl := url \<rparr>"

definition reset :: "AppState \<Rightarrow> AppState" where
  "reset state =
     state\<lparr> voiceId := None, cloneId := None, imageId := None, isReady := False,
            mode := Auto, conversationId := None, messages := [], isLoading := False,
            currentVideoUrl := None, currentAudioUrl := None \<rparr>"

subsection \<open>Persistence\<close>

text \<open>The object returned by \<open>partialize\<close>: the part of the state written to storage.\<close>

record PersistedState =
  p_voiceId :: "jsstring option"
  p_cloneId :: "jsstring option"
  p_imageId :: "jsstring option"

definition partialize :: "AppState \<Rightarrow> PersistedState" where
  "partialize state =
     \<lparr> p_voiceId = voiceId state, p_cloneId = cloneId state, p_imageId = imageId state \<rparr>"

text \<open>
  The \<open>persist\<close> middleware of zustand is library code. The store configures only \<open>name\<close>
  and \<open>partialize\<close>, so the middleware's defaults apply: after every \<open>set\<close> it writes
  \<open>partialize(state)\<close> to storage, and when the store is created it reads the stored
  object and replaces the state by \<open>merge(persisted, current)\<close>, the shallow merge
  \<open>{...current, ...persisted}\<close>, where \<open>current\<close> is the initial state of the creator
  function. No \<open>merge\<close> or \<open>onRehydrateStorage\<close> option is given.
\<close>

definition merge :: "PersistedState \<Rightarrow> AppState \<Rightarrow> AppState" where
  "merge persisted current =
     current\<lparr> voiceId := p_voiceId persisted, cloneId := p_cloneId persisted,
              imageId := p_imageId persisted \<rparr>"

definition rehydrate :: "PersistedState option \<Rightarrow> AppState" where
  "rehydrate stored = (case stored of None \<Rightarrow> initialState | Some p \<Rightarrow> merge p initialState)"

text \<open>A page reload from state \<open>s\<close>: the storage holds \<open>partialize s\<close>.\<close>

definition reload :: "AppState \<Rightarrow> AppState" where
  "reload s = rehydrate (Some (partialize s))"

text \<open>The readiness invariant of the session.\<close>

definition ready_inv :: "AppState \<Rightarrow> bool" where
  "ready_inv s = (isReady s = (voiceId s \<noteq> None \<and> cloneId s \<noteq> None \<and> imageId s \<noteq> None))"

text \<open>The operations of the store, and a run of a sequence of them.\<close>

datatype store_op =
    SetVoiceId "jsstring option"
  | SetCloneId "jsstring option"
  | SetImageId "jsstring option"
  | SetMode ChatMode
  | AddMessage ChatMessage
  | SetMessages "ChatMessage list"
  | SetIsLoading bool
  | SetCurrentVideo "jsstring option"
  | SetCurrentAudio "jsstring option"
  | Reset
  | Reload

fun apply_store_op :: "store_op \<Rightarrow> AppState \<Rightarrow> AppState" where
  "apply_store_op (SetVoiceId i) s = setVoiceId i s"
| "apply_store_op (SetCloneId i) s = setCloneId i s"
| "apply_store_op (SetImageId i) s = setImageId i s"
| "apply_store_op (SetMode m) s = setMode m s"
| "apply_store_op (AddMessage m) s = addMessage m s"
| "apply_store_op (SetMessages ms) s = setMessages ms s"
| "apply_store_op (SetIsLoading b) s = setIsLoading b s"
| "apply_store_op (SetCurrentVideo u) s = setCurrentVideo u s"
| "apply_store_op (SetCurrentAudio u) s = setCurrentAudio u s"
| "apply_store_op Reset s = reset s"
| "apply_store_op Reload s = reload s"

definition run_store :: "store_op list \<Rightarrow> AppState \<Rightarrow> AppState" where
  "run_store ops s = foldl (\<lambda>st op. apply_store_op op st) s ops"

text \<open>Sample identifiers: the one-letter strings \<open>v\<close>, \<open>c\<close> and \<open>i\<close>.\<close>

definition sample_setup :: "store_op list" where
  "sample_setup = [SetVoiceId (Some [0x76]), SetCloneId (Some [0x63]), SetImageId (Some [0x69])]"

section \<open>Library behaviour the components rely on\<close>

text \<open>
  \<open>String.prototype.trim\<close> removes the ECMAScript white space and line terminator code
  units from both ends.
\<close>

definition isWhiteSpace :: "16 word \<Rightarrow> bool" where
  "isWhiteSpace c =
     (c \<in> set [0x9, 0xA, 0xB, 0xC, 0xD, 0x20, 0xA0, 0x1680,
                0x2000, 0x2001, 0x2002, 0x2003, 0x2004, 0x2005, 0x2006, 0x2007, 0x2008,
                0x2009, 0x200A, 0x2028, 0x2029, 0x202F, 0x205F, 0x3000, 0xFEFF])"

definition trim :: "jsstring \<Rightarrow> jsstring" where
  "trim s = rev (dropWhile isWhiteSpace (rev (dropWhile isWhiteSpace s)))"

text \<open>
  \<open>useMutation\<close> (React Query) is library code. Its contract, as far as the components
  use it: every \<open>mutate(variables)\<close> creates a new mutation with a fresh identifier, makes
  it the hook's current mutation, runs \<open>onMutate\<close> and starts the request; when the
  request's promise fulfils with \<open>data\<close>, \<open>onSuccess(data)\<close> runs, then \<open>onSettled\<close>; when
  it rejects, \<open>onError\<close> runs, then \<open>onSettled\<close>; these callbacks run for every mutation,
  current or not. \<open>isPending\<close> reports the current mutation only: it is true exactly
  while the mutation started by the latest \<open>mutate\<close> call is unresolved. Each component
  below carries the list of its unresolved requests, oldest first; the manual component,
  which reads \<open>isPending\<close>, also carries each request's identifier, the identifier of the
  current mutation of each hook, and the next identifier to hand out.
\<close>

section \<open>Conversation mode (the chat component, ChatInterface)\<close>

record ChatRequest =
  req_message :: jsstring
  req_clone_id :: jsstring
  req_image_id :: jsstring
  req_conversation_id :: "jsstring option"
  req_generate_video :: bool

record ChatResponse =
  resp_conversation_id :: jsstring
  resp_message :: ChatMessage
  resp_response :: ChatMessage
  resp_video_id :: "jsstring option"
  resp_status :: ProcessingStatus

text \<open>
  The component's state: the store it reads and writes, its three \<open>useState\<close> cells
  (\<open>input\<close>, \<open>conversationId\<close>, \<open>isRecording\<close>) and the unresolved requests of
  \<open>sendMessageMutation\<close>. The conversation identifier lives in the component, not in the
  store: the store's field of the same name has no setter.
\<close>

record ChatInterface =
  store :: AppState
  input :: jsstring
  localConversationId :: "jsstring option"
  isRecording :: bool
  sendInFlight :: "ChatRequest list"

text \<open>The fixed text of the error turn, 23 code units of Japanese.\<close>

definition errorText :: jsstring where
  "errorText =
     [0x30A8, 0x30E9, 0x30FC, 0x304C, 0x767A, 0x751F, 0x3057, 0x307E, 0x3057, 0x305F, 0x3002,
      0x3082, 0x3046, 0x4E00, 0x5EA6, 0x304A, 0x8A66, 0x3057, 0x304F, 0x3060, 0x3055, 0x3044,
      0x3002]"

definition sendMessageMutation_onMutate :: "ChatInterface \<Rightarrow> ChatInterface" where
  "sendMessageMutation_onMutate s = s\<lparr> store := setIsLoading True (store s) \<rparr>"

definition sendMessageMutation_onSuccess :: "ChatResponse \<Rightarrow> ChatInterface \<Rightarrow> ChatInterface" where
  "sendMessageMutation_onSuccess data s =
     (let s1 = s\<lparr> localConversationId := Some (resp_conversation_id data) \<rparr>;
          s2 = s1\<lparr> store := addMessage (resp_response data) (store s1) \<rparr>
      in if truthy (msg_video_url (resp_response data))
         then s2\<lparr> store := setCurrentVideo (msg_video_url (resp_response data)) (store s2) \<rparr>
         else if truthy (msg_audio_url (resp_response data))
         then s2\<lparr> store := setCurrentAudio (msg_audio_url (resp_response data)) (store s2) \<rparr>
         else s2)"

text \<open>\<open>now\<close> is the value of \<open>new Date().toISOString()\<close> when the callback runs.\<close>

definition sendMessageMutation_onError :: "jsstring \<Rightarrow> ChatInterface \<Rightarrow> ChatInterface" where
  "sendMessageMutation_onError now s =
     s\<lparr> store := addMessage \<lparr> role = Assistant, content = errorText, timestamp = now,
                                msg_audio_url = None, msg_video_url = None \<rparr> (store s) \<rparr>"

definition sendMessageMutation_onSettled :: "ChatInterface \<Rightarrow> ChatInterface" where
  "sendMessageMutation_onSettled s = s\<lparr> store := setIsLoading False (store s) \<rparr>"

definition sendMessageMutation_mutate :: "ChatRequest \<Rightarrow> ChatInterface \<Rightarrow> ChatInterface" where
  "sendMessageMutation_mutate req s =
     sendMessageMutation_onMutate (s\<lparr> sendInFlight := sendInFlight s @ [req] \<rparr>)"

definition sendMessage_fulfilled :: "ChatRequest \<Rightarrow> ChatResponse \<Rightarrow> ChatInterface \<Rightarrow> ChatInterface" where
  "sendMessage_fulfilled req data s =
     sendMessageMutation_onSettled
       (sendMessageMutation_onSuccess data (s\<lparr> sendInFlight := remove1 req (sendInFlight s) \<rparr>))"

definition sendMessage_rejected :: "ChatRequest \<Rightarrow> jsstring \<Rightarrow> ChatInterface \<Rightarrow> ChatInterface" where
  "sendMessage_rejected req now s =
     sendMessageMutation_onSettled
       (sendMessageMutation_onError now (s\<lparr> sendInFlight := remove1 req (sendInFlight s) \<rparr>))"

text \<open>\<open>cloneId\<close> and \<open>imageId\<close> are the component's props.\<close>

definition handleSend :: "jsstring \<Rightarrow> jsstring \<Rightarrow> jsstring \<Rightarrow> ChatInterface \<Rightarrow> ChatInterface" where
  "handleSend cloneId' imageId' now s =
     (if trim (input s) = [] \<or> isLoading (store s) then s
      else
        let userMessage = \<lparr> role = User, content = trim (input s), timestamp = now,
                             msg_audio_url = None, msg_video_url = None \<rparr>;
            s1 = s\<lparr> store := addMessage userMessage (store s) \<rparr>;
            s2 = s1\<lparr> input := [] \<rparr>
        in sendMessageMutation_mutate
             \<lparr> req_message = content userMessage, req_clone_id = cloneId',
               req_image_id = imageId',
               req_conversation_id =
                 (if truthy (localConversationId s) then localConversationId s else None),
               req_generate_video = True \<rparr> s2)"

definition clearChat :: "ChatInterface \<Rightarrow> ChatInterface" where
  "clearChat s =
     (let s1 = s\<lparr> store := setMessages [] (store s) \<rparr>;
          s2 = s1\<lparr> localConversationId := None \<rparr>;
          s3 = s2\<lparr> store := setCurrentVideo None (store s2) \<rparr>
      in s3\<lparr> store := setCurrentAudio None (store s3) \<rparr>)"



text \<open>
  The component as mounted over a store state, and the events that change its state:
  typing into the input (\<open>setInput(e.target.value)\<close>), the send handler, the resolution
  of the \<open>j\<close>-th unresolved request, the clear button, and a write to the shared store
  by any other code (the manual component's callbacks, the voice path, the page's reset).
  A resolution event for a request that is not unresolved cannot happen and leaves the
  state as it is.
\<close>

definition chat_mount :: "AppState \<Rightarrow> ChatInterface" where
  "chat_mount st =
     \<lparr> store = st, input = [], localConversationId = None, isRecording = False,
       sendInFlight = [] \<rparr>"

datatype chat_event =
    InputChanged jsstring
  | SendPressed jsstring
  | SendFulfilled nat ChatResponse
  | SendRejected nat jsstring
  | ClearPressed
  | StoreWritten store_op

fun chat_step :: "jsstring \<Rightarrow> jsstring \<Rightarrow> ChatInterface \<Rightarrow> chat_event \<Rightarrow> ChatInterface" where
  "chat_step c i s (InputChanged v) = s\<lparr> input := v \<rparr>"
| "chat_step c i s (SendPressed now) = handleSend c i now s"
| "chat_step c i s (SendFulfilled j data) =
     (if j < length (sendInFlight s) then sendMessage_fulfilled (sendInFlight s ! j) data s
      else s)"
| "chat_step c i s (SendRejected j now) =
     (if j < length (sendInFlight s) then sendMessage_rejected (sendInFlight s ! j) now s
      else s)"
| "chat_step c i s ClearPressed = clearChat s"
| "chat_step c i s (StoreWritten op) = s\<lparr> store := apply_store_op op (store s) \<rparr>"

definition chat_run :: "jsstring \<Rightarrow> jsstring \<Rightarrow> AppState \<Rightarrow> chat_event list \<Rightarrow> ChatInterface" where
  "chat_run c i st evs = foldl (chat_step c i) (chat_mount st) evs"



section \<open>Manual mode (frontend/src/components/ManualInput.tsx)\<close>

record ManualSpeakRequest =
  speak_text :: jsstring
  speak_clone_id :: jsstring
  speak_image_id :: jsstring
  speak_preview_only :: bool

record ManualSpeakResponse =
  speak_resp_task_id :: jsstring
  speak_resp_text :: jsstring
  speak_resp_clone_id :: jsstring
  speak_resp_image_id :: jsstring
  speak_resp_status :: ProcessingStatus
  speak_resp_audio_url :: "jsstring option"
  speak_resp_video_url :: "jsstring option"

text \<open>The variables of the preview mutation, and the one field read from its response.\<close>

record PreviewRequest =
  preview_text :: jsstring
  preview_cloneId :: jsstring

record PreviewResponse =
  preview_audio_url :: "jsstring option"

text \<open>An entry of the history; the \<open>Date\<close> is kept as milliseconds since the epoch.\<close>

record TaskHistory =
  task_id :: jsstring
  task_text :: jsstring
  task_status :: ProcessingStatus
  task_video_url :: "jsstring option"
  task_audio_url :: "jsstring option"
  task_timestamp :: int

text \<open>
  The component's state: the store, its three \<open>useState\<close> cells (\<open>text\<close>, here
  \<open>textValue\<close>, \<open>previewOnly\<close> and \<open>history\<close>) and the state of its two mutation hooks:
  the unresolved requests of each, every one with its mutation identifier, the
  identifier of each hook's current mutation (none before the first \<open>mutate\<close>), and the
  next identifier.
\<close>

record ManualInput =
  mstore :: AppState
  textValue :: jsstring
  previewOnly :: bool
  history :: "TaskHistory list"
  speakInFlight :: "(nat \<times> ManualSpeakRequest) list"
  previewInFlight :: "(nat \<times> PreviewRequest) list"
  speakCurrent :: "nat option"
  previewCurrent :: "nat option"
  nextMutationId :: nat

definition MAX_CHARS :: nat where
  "MAX_CHARS = 5000"

text \<open>The \<open>onChange\<close> handler of the textarea; \<open>v\<close> is \<open>e.target.value\<close>.\<close>

definition textarea_onChange :: "jsstring \<Rightarrow> ManualInput \<Rightarrow> ManualInput" where
  "textarea_onChange v s = s\<lparr> textValue := take MAX_CHARS v \<rparr>"

definition speakMutation_onMutate :: "ManualInput \<Rightarrow> ManualInput" where
  "speakMutation_onMutate s = s\<lparr> mstore := setIsLoading True (mstore s) \<rparr>"

text \<open>\<open>now\<close> is the value of \<open>new Date()\<close> when the callback runs.\<close>

definition speakMutation_onSuccess :: "ManualSpeakResponse \<Rightarrow> int \<Rightarrow> ManualInput \<Rightarrow> ManualInput" where
  "speakMutation_onSuccess data now s =
     (let s1 = s\<lparr> history :=
                    \<lparr> task_id = speak_resp_task_id data, task_text = speak_resp_text data,
                      task_status = speak_resp_status data,
                      task_video_url = speak_resp_video_url data,
                      task_audio_url = speak_resp_audio_url data,
                      task_timestamp = now \<rparr> # take 9 (history s) \<rparr>;
          s2 = (if truthy (speak_resp_video_url data)
                then s1\<lparr> mstore := setCurrentVideo (speak_resp_video_url data) (mstore s1) \<rparr>
                else if truthy (speak_resp_audio_url data)
                then s1\<lparr> mstore := setCurrentAudio (speak_resp_audio_url data) (mstore s1) \<rparr>
                else s1)
      in s2\<lparr> textValue := [] \<rparr>)"

text \<open>\<open>onError\<close> writes to the console only.\<close>

definition speakMutation_onError :: "ManualInput \<Rightarrow> ManualInput" where
  "speakMutation_onError s = s"

definition speakMutation_onSettled :: "ManualInput \<Rightarrow> ManualInput" where
  "speakMutation_onSettled s = s\<lparr> mstore := setIsLoading False (mstore s) \<rparr>"

definition previewMutation_onSuccess :: "PreviewResponse \<Rightarrow> ManualInput \<Rightarrow> ManualInput" where
  "previewMutation_onSuccess data s =
     s\<lparr> mstore := setCurrentAudio (preview_audio_url data) (mstore s) \<rparr>"

text \<open>
  \<open>mutate\<close>: the new mutation takes the next identifier and becomes the hook's current
  mutation. A settled request, given with its identifier, leaves the unresolved list;
  which mutation is current does not change.
\<close>

definition speakMutation_mutate :: "ManualSpeakRequest \<Rightarrow> ManualInput \<Rightarrow> ManualInput" where
  "speakMutation_mutate req s =
     speakMutation_onMutate
       (s\<lparr> speakInFlight := speakInFlight s @ [(nextMutationId s, req)],
            speakCurrent := Some (nextMutationId s),
            nextMutationId := Suc (nextMutationId s) \<rparr>)"

definition speak_fulfilled ::
  "nat \<times> ManualSpeakRequest \<Rightarrow> ManualSpeakResponse \<Rightarrow> int \<Rightarrow> ManualInput \<Rightarrow> ManualInput" where
  "speak_fulfilled req data now s =
     speakMutation_onSettled
       (speakMutation_onSuccess data now
          (s\<lparr> speakInFlight := filter (\<lambda>p. fst p \<noteq> fst req) (speakInFlight s) \<rparr>))"

definition speak_rejected :: "nat \<times> ManualSpeakRequest \<Rightarrow> ManualInput \<Rightarrow> ManualInput" where
  "speak_rejected req s =
     speakMutation_onSettled
       (speakMutation_onError
          (s\<lparr> speakInFlight := filter (\<lambda>p. fst p \<noteq> fst req) (speakInFlight s) \<rparr>))"

definition previewMutation_mutate :: "PreviewRequest \<Rightarrow> ManualInput \<Rightarrow> ManualInput" where
  "previewMutation_mutate req s =
     s\<lparr> previewInFlight := previewInFlight s @ [(nextMutationId s, req)],
         previewCurrent := Some (nextMutationId s),
         nextMutationId := Suc (nextMutationId s) \<rparr>"

definition preview_fulfilled ::
  "nat \<times> PreviewRequest \<Rightarrow> PreviewResponse \<Rightarrow> ManualInput \<Rightarrow> ManualInput" where
  "preview_fulfilled req data s =
     previewMutation_onSuccess data
       (s\<lparr> previewInFlight := filter (\<lambda>p. fst p \<noteq> fst req) (previewInFlight s) \<rparr>)"


definition handleSpeak :: "jsstring \<Rightarrow> jsstring \<Rightarrow> ManualInput \<Rightarrow> ManualInput" where
  "handleSpeak cloneId' imageId' s =
     (if trim (textValue s) = [] then s
      else speakMutation_mutate
             \<lparr> speak_text = trim (textValue s), speak_clone_id = cloneId',
               speak_image_id = imageId', speak_preview_only = previewOnly s \<rparr> s)"

definition handlePreview :: "jsstring \<Rightarrow> ManualInput \<Rightarrow> ManualInput" where
  "handlePreview cloneId' s =
     (if trim (textValue s) = [] then s
      else previewMutation_mutate
             \<lparr> preview_text = trim (textValue s), preview_cloneId = cloneId' \<rparr> s)"

definition playFromHistory :: "TaskHistory \<Rightarrow> ManualInput \<Rightarrow> ManualInput" where
  "playFromHistory item s =
     (if truthy (task_video_url item)
      then s\<lparr> mstore := setCurrentVideo (task_video_url item) (mstore s) \<rparr>
      else if truthy (task_audio_url item)
      then s\<lparr> mstore := setCurrentAudio (task_audio_url item) (mstore s) \<rparr>
      else s)"

text \<open>
  \<open>isPending\<close> of each hook: its current mutation is unresolved. The component's own
  \<open>isLoading\<close> is \<open>speakMutation.isPending || previewMutation.isPending\<close>.
\<close>

definition speakMutation_isPending :: "ManualInput \<Rightarrow> bool" where
  "speakMutation_isPending s =
     (case speakCurrent s of None \<Rightarrow> False | Some k \<Rightarrow> k \<in> set (map fst (speakInFlight s)))"

definition previewMutation_isPending :: "ManualInput \<Rightarrow> bool" where
  "previewMutation_isPending s =
     (case previewCurrent s of None \<Rightarrow> False
      | Some k \<Rightarrow> k \<in> set (map fst (previewInFlight s)))"

definition manualIsLoading :: "ManualInput \<Rightarrow> bool" where
  "manualIsLoading s = (speakMutation_isPending s \<or> previewMutation_isPending s)"

text \<open>
  Both action buttons carry \<open>disabled={!text.trim() || isLoading}\<close>; a disabled button
  dispatches no click, so its \<open>onClick\<close> handler does not run.
\<close>

definition button_disabled :: "ManualInput \<Rightarrow> bool" where
  "button_disabled s = (trim (textValue s) = [] \<or> manualIsLoading s)"



text \<open>
  The component as mounted over a store state, and the history after a sequence of
  fulfilled speak requests, each given with the response and the clock reading at its
  resolution. Mutation identifiers only have to differ from one another, so the
  component's first one is taken to be 0.
\<close>

definition manual_mount :: "AppState \<Rightarrow> ManualInput" where
  "manual_mount st =
     \<lparr> mstore = st, textValue = [], previewOnly = False, history = [], speakInFlight = [],
       previewInFlight = [], speakCurrent = None, previewCurrent = None,
       nextMutationId = 0 \<rparr>"

definition task_of :: "ManualSpeakResponse \<times> int \<Rightarrow> TaskHistory" where
  "task_of p =
     \<lparr> task_id = speak_resp_task_id (fst p), task_text = speak_resp_text (fst p),
       task_status = speak_resp_status (fst p), task_video_url = speak_resp_video_url (fst p),
       task_audio_url = speak_resp_audio_url (fst p), task_timestamp = snd p \<rparr>"

definition speak_successes :: "(ManualSpeakResponse \<times> int) list \<Rightarrow> ManualInput \<Rightarrow> ManualInput" where
  "speak_successes ds s = foldl (\<lambda>st p. speakMutation_onSuccess (fst p) (snd p) st) s ds"




section \<open>Playback (the avatar display component, AvatarDisplay)\<close>

text \<open>
  What the component renders in the avatar container, whether it renders the hidden
  \<open>audio\<close> element, and whether each of its two playback effects calls \<open>play()\<close>. A ref is
  non-null exactly when its element is rendered.
\<close>

datatype avatar_container = VideoPlayer jsstring | StaticImage jsstring | Placeholder

definition avatar_container :: "AppState \<Rightarrow> avatar_container" where
  "avatar_container st =
     (case currentVideoUrl st of
        Some u \<Rightarrow> (if u \<noteq> [] then VideoPlayer u
                   else (case imageId st of
                           Some i \<Rightarrow> (if i \<noteq> [] then StaticImage i else Placeholder)
                         | None \<Rightarrow> Placeholder))
      | None \<Rightarrow> (case imageId st of
                   Some i \<Rightarrow> (if i \<noteq> [] then StaticImage i else Placeholder)
                 | None \<Rightarrow> Placeholder))"

definition audio_rendered :: "AppState \<Rightarrow> bool" where
  "audio_rendered st = (truthy (currentAudioUrl st) \<and> \<not> truthy (currentVideoUrl st))"

definition video_effect_plays :: "AppState \<Rightarrow> bool" where
  "video_effect_plays st = truthy (currentVideoUrl st)"

definition audio_effect_plays :: "AppState \<Rightarrow> bool" where
  "audio_effect_plays st =
     (truthy (currentAudioUrl st) \<and> audio_rendered st \<and> \<not> truthy (currentVideoUrl st))"

section \<open>Named values used to state and instantiate the properties\<close>

text \<open>The synthetic assistant turn appended by \<open>sendMessageMutation.onError\<close>.\<close>

definition error_turn :: "jsstring \<Rightarrow> ChatMessage" where
  "error_turn now = \<lparr> role = Assistant, content = errorText, timestamp = now,
                       msg_audio_url = None, msg_video_url = None \<rparr>"




text \<open>
  Sample inputs: the text \<open>hi\<close>, the clone identifier \<open>c\<close> and the image identifier \<open>i\<close>;
  the manual component after \<open>hi\<close> was typed; the events of the chat component when \<open>hi\<close>
  is typed and sent at time \<open>t\<close>; stores and responses holding the video URL \<open>v\<close> and
  the audio URL \<open>a\<close>.
\<close>

definition sample_manual :: ManualInput where
  "sample_manual = textarea_onChange [0x68, 0x69] (manual_mount initialState)"

definition sample_speak_request :: ManualSpeakRequest where
  "sample_speak_request =
     \<lparr> speak_text = [0x68, 0x69], speak_clone_id = [0x63], speak_image_id = [0x69],
       speak_preview_only = False \<rparr>"

definition sample_chat_events :: "chat_event list" where
  "sample_chat_events = [InputChanged [0x68, 0x69], SendPressed [0x74]]"

definition sample_chat_request :: ChatRequest where
  "sample_chat_request =
     \<lparr> req_message = [0x68, 0x69], req_clone_id = [0x63], req_image_id = [0x69],
       req_conversation_id = None, req_generate_video = True \<rparr>"



text \<open>
  Responses whose status is \<open>failed\<close>: a chat response whose reply turn is empty and
  carries no media, and a speak response with no media.
\<close>

definition sample_failed_chat_response :: ChatResponse where
  "sample_failed_chat_response =
     \<lparr> resp_conversation_id = [0x6B],
       resp_message = \<lparr> role = User, content = [0x68, 0x69], timestamp = [0x74],
                        msg_audio_url = None, msg_video_url = None \<rparr>,
       resp_response = \<lparr> role = Assistant, content = [], timestamp = [0x75],
                         msg_audio_url = None, msg_video_url = None \<rparr>,
       resp_video_id = None, resp_status = Failed \<rparr>"

definition sample_failed_speak_response :: ManualSpeakResponse where
  "sample_failed_speak_response =
     \<lparr> speak_resp_task_id = [0x31], speak_resp_text = [0x68, 0x69],
       speak_resp_clone_id = [0x63], speak_resp_image_id = [0x69],
       speak_resp_status = Failed, speak_resp_audio_url = None,
       speak_resp_video_url = None \<rparr>"

definition sample_store_both :: AppState where
  "sample_store_both =
     initialState\<lparr> currentVideoUrl := Some [0x76], currentAudioUrl := Some [0x61] \<rparr>"

definition sample_store_audio :: AppState where
  "sample_store_audio = initialState\<lparr> currentAudioUrl := Some [0x61] \<rparr>"

definition sample_speak_response :: ManualSpeakResponse where
  "sample_speak_response =
     \<lparr> speak_resp_task_id = [0x31], speak_resp_text = [0x68, 0x69],
       speak_resp_clone_id = [0x63], speak_resp_image_id = [0x69],
       speak_resp_status = Completed, speak_resp_audio_url = Some [0x61],
       speak_resp_video_url = Some [0x76] \<rparr>"

definition sample_chat_response :: ChatResponse where
  "sample_chat_response =
     \<lparr> resp_conversation_id = [0x6B],
       resp_message = \<lparr> role = User, content = [0x68, 0x69], timestamp = [0x74],
                        msg_audio_url = None, msg_video_url = None \<rparr>,
       resp_response = \<lparr> role = Assistant, content = [0x6F, 0x6B], timestamp = [0x75],
                         msg_audio_url = Some [0x61], msg_video_url = Some [0x76] \<rparr>,
       resp_video_id = None, resp_status = Completed \<rparr>"



section \<open>Properties of the store\<close>

lemma setters_establish_ready_inv:
  "ready_inv (setVoiceId i s)" "ready_inv (setCloneId i s)" "ready_inv (setImageId i s)"
  "ready_inv (reset s)" "ready_inv initialState"
  by (simp_all add: ready_inv_def setVoiceId_def setCloneId_def setImageId_def reset_def
      initialState_def)

lemma other_actions_keep_ready_inv:
  assumes "ready_inv s"
  shows "ready_inv (setMode m s)" "ready_inv (addMessage msg s)" "ready_inv (setMessages ms s)"
    "ready_inv (setIsLoading b s)" "ready_inv (setCurrentVideo u s)"
    "ready_inv (setCurrentAudio u s)"
  using assms
  by (simp_all add: ready_inv_def setMode_def addMessage_def setMessages_def setIsLoading_def
      setCurrentVideo_def setCurrentAudio_def)

lemma reload_fields:
  "reload s = initialState\<lparr> voiceId := voiceId s, cloneId := cloneId s, imageId := imageId s \<rparr>"
  by (simp add: reload_def rehydrate_def merge_def partialize_def)

lemma reload_ready_inv_iff:
  "ready_inv (reload s) = (voiceId s = None \<or> cloneId s = None \<or> imageId s = None)"
  by (auto simp add: reload_fields ready_inv_def initialState_def)

text \<open>
  Claim C1. The flag \<open>isReady\<close> is meant to be true exactly when the three identifiers
  are non-null, after every operation. The three setters and \<open>reset\<close> recompute it, but
  rehydration does not: after the three identifiers were set (so \<open>isReady\<close> is true) and
  the page is reloaded, the store holds the three identifiers again while \<open>isReady\<close> is
  the initial \<open>false\<close>.
\<close>

theorem isReady_stale_after_reload:
  "isReady (run_store sample_setup initialState)
   \<and> voiceId (run_store (sample_setup @ [Reload]) initialState) = Some [0x76]
   \<and> cloneId (run_store (sample_setup @ [Reload]) initialState) = Some [0x63]
   \<and> imageId (run_store (sample_setup @ [Reload]) initialState) = Some [0x69]
   \<and> isReady (run_store (sample_setup @ [Reload]) initialState) = False"
  by (simp add: run_store_def sample_setup_def reload_fields setVoiceId_def setCloneId_def
      setImageId_def initialState_def)

text \<open>
  Claim C8. The persisted projection of a state consists of exactly the three setup
  identifiers: \<open>partialize\<close> returns the object with the fields \<open>voiceId\<close>, \<open>cloneId\<close> and
  \<open>imageId\<close> of the state and nothing else; overwriting the readiness flag, the mode, the
  conversation identifier, the transcript, the loading flag and both media references
  by any values whatsoever does not change it; and after a reload all those other
  fields hold their initial values, whatever they were before. The task history is not
  part of the store at all: it is a state cell of the manual component, created empty
  whenever the component is mounted.
\<close>

theorem partialize_only_setup_ids:
  "partialize s = \<lparr> p_voiceId = voiceId s, p_cloneId = cloneId s, p_imageId = imageId s \<rparr>
   \<and> partialize (s\<lparr> isReady := r, mode := m, conversationId := c, messages := ms,
                    isLoading := l, currentVideoUrl := v, currentAudioUrl := a \<rparr>) = partialize s
   \<and> voiceId (reload s) = voiceId s \<and> cloneId (reload s) = cloneId s
   \<and> imageId (reload s) = imageId s
   \<and> mode (reload s) = Auto \<and> conversationId (reload s) = None \<and> messages (reload s) = []
   \<and> isLoading (reload s) = False \<and> currentVideoUrl (reload s) = None
   \<and> currentAudioUrl (reload s) = None"
  by (simp add: partialize_def reload_fields initialState_def)

text \<open>
  Claim C10. From every store state, \<open>reset\<close> yields the one fixed initial state: the
  three identifiers and \<open>isReady\<close> are cleared, and so are the transcript, the
  conversation identifier, the mode (back to \<open>auto\<close>), the loading flag and both media
  references.
\<close>

theorem reset_is_initialState:
  "reset s = initialState"
  by (cases s) (simp add: reset_def initialState_def)

section \<open>Properties of manual mode\<close>

lemma speak_onSuccess_history:
  "history (speakMutation_onSuccess d now s) = task_of (d, now) # take 9 (history s)"
  by (simp add: speakMutation_onSuccess_def task_of_def Let_def)

lemma speak_successes_snoc:
  "speak_successes (ds @ [p]) s = speakMutation_onSuccess (fst p) (snd p) (speak_successes ds s)"
  by (simp add: speak_successes_def)

lemma history_speak_successes:
  "length (history s) \<le> 10 \<Longrightarrow>
   history (speak_successes ds s) = take 10 (rev (map task_of ds) @ history s)"
proof (induction ds rule: rev_induct)
  case Nil
  then show ?case by (simp add: speak_successes_def)
next
  case (snoc p ds)
  have "history (speak_successes (ds @ [p]) s) = task_of p # take 9 (history (speak_successes ds s))"
    by (simp add: speak_successes_snoc speak_onSuccess_history)
  also have "\<dots> = task_of p # take 9 (take 10 (rev (map task_of ds) @ history s))"
    using snoc by (simp only:)
  also have "\<dots> = task_of p # take 9 (rev (map task_of ds) @ history s)"
    by (simp only: take_take) simp
  also have "\<dots> = take 10 (task_of p # (rev (map task_of ds) @ history s))"
    by (simp add: take_Cons')
  finally show ?case by simp
qed

text \<open>
  Claim C5. The history never exceeds 10 entries and is ordered newest first. After any
  sequence of fulfilled speak requests, starting from the freshly mounted component, the
  history is the last ten of their entries, the most recent at the head; and from any
  state whatsoever one fulfilled request puts its entry at the head, keeps the first nine
  of the previous entries behind it and drops the rest, so at most ten remain.
\<close>

theorem history_bounded_newest_first:
  "history (speak_successes ds (manual_mount st)) = take 10 (rev (map task_of ds))
   \<and> length (history (speak_successes ds (manual_mount st))) \<le> 10
   \<and> history (speakMutation_onSuccess d now s) = task_of (d, now) # take 9 (history s)
   \<and> length (history (speakMutation_onSuccess d now s)) \<le> 10"
proof -
  have m: "history (manual_mount st) = []"
    by (simp add: manual_mount_def)
  have a: "history (speak_successes ds (manual_mount st)) = take 10 (rev (map task_of ds))"
    using history_speak_successes [of "manual_mount st" ds] by (simp add: m)
  have b: "length (history (speak_successes ds (manual_mount st))) \<le> 10"
    by (simp add: a)
  have c: "length (history (speakMutation_onSuccess d now s)) \<le> 10"
    by (simp add: speak_onSuccess_history)
  from a b c show ?thesis by (simp add: speak_onSuccess_history)
qed

text \<open>
  Claim C7. The textarea handler stores the input cut to its first 5000 code units and
  changes nothing else; it stores something for every input (nothing is rejected); an
  input of at most 5000 code units is stored as it is; and whatever follows the first
  5000 code units has no effect on the stored state.
\<close>

theorem text_truncated_at_cap:
  "textarea_onChange v s = s\<lparr> textValue := take 5000 v \<rparr>
   \<and> length (textValue (textarea_onChange v s)) \<le> 5000
   \<and> (length v \<le> 5000 \<longrightarrow> textValue (textarea_onChange v s) = v)
   \<and> (5000 \<le> length v \<longrightarrow> textarea_onChange (v @ w) s = textarea_onChange v s)"
  by (simp add: textarea_onChange_def MAX_CHARS_def)

theorem text_truncated_at_cap_witness:
  "textValue (textarea_onChange [0x61, 0x62] (manual_mount initialState)) = [0x61, 0x62]
   \<and> textValue (textarea_onChange (replicate 5000 0x61 @ [0x62, 0x63]) (manual_mount initialState))
       = replicate 5000 0x61"
proof -
  have h1: "length [0x61, 0x62 :: 16 word] \<le> 5000" by simp
  have h2: "5000 \<le> length (replicate 5000 (0x61 :: 16 word))" by simp
  have t: "textValue (textarea_onChange (replicate 5000 0x61) (manual_mount initialState))
           = replicate 5000 0x61"
    using text_truncated_at_cap [of "replicate 5000 0x61" "manual_mount initialState"] h2 by simp
  show ?thesis
    using text_truncated_at_cap [of "[0x61, 0x62]" "manual_mount initialState"]
      text_truncated_at_cap [of "replicate 5000 0x61" "manual_mount initialState" "[0x62, 0x63]"]
      h1 h2 t
    by simp
qed

text \<open>
  Claim C9. A fulfilled preview sets the current audio reference to the audio URL of the
  response and changes nothing else in the store or the component: the current video
  reference, the history and the text buffer are as before.
\<close>

theorem preview_sets_audio_only:
  "previewMutation_onSuccess data s
     = s\<lparr> mstore := (mstore s)\<lparr> currentAudioUrl := preview_audio_url data \<rparr> \<rparr>
   \<and> currentAudioUrl (mstore (preview_fulfilled req data s)) = preview_audio_url data
   \<and> currentVideoUrl (mstore (preview_fulfilled req data s)) = currentVideoUrl (mstore s)
   \<and> history (preview_fulfilled req data s) = history s
   \<and> textValue (preview_fulfilled req data s) = textValue s"
  by (simp add: previewMutation_onSuccess_def preview_fulfilled_def setCurrentAudio_def)

section \<open>Properties of conversation mode\<close>

lemma trim_hi: "trim [0x68, 0x69] = [0x68, 0x69]"
  by (simp add: trim_def isWhiteSpace_def)

lemma sample_chat_run:
  "chat_run [0x63] [0x69] initialState sample_chat_events
     = \<lparr> store = initialState\<lparr> messages := [\<lparr> role = User, content = [0x68, 0x69],
                timestamp = [0x74], msg_audio_url = None, msg_video_url = None \<rparr>],
              isLoading := True \<rparr>,
         input = [], localConversationId = None, isRecording = False,
         sendInFlight = [sample_chat_request] \<rparr>"
  by (simp add: chat_run_def sample_chat_events_def chat_mount_def handleSend_def trim_hi
      initialState_def Let_def sendMessageMutation_mutate_def sendMessageMutation_onMutate_def
      setIsLoading_def addMessage_def sample_chat_request_def)






section \<open>Submitting while a request is unresolved\<close>

lemma sample_manual_fields:
  "textValue sample_manual = [0x68, 0x69]" "speakInFlight sample_manual = []"
  "previewInFlight sample_manual = []" "history sample_manual = []"
  "previewOnly sample_manual = False" "mstore sample_manual = initialState"
  "speakCurrent sample_manual = None" "previewCurrent sample_manual = None"
  "nextMutationId sample_manual = 0"
  by (simp_all add: sample_manual_def textarea_onChange_def manual_mount_def MAX_CHARS_def)

lemma handleSpeak_sample:
  "handleSpeak [0x63] [0x69] sample_manual
     = sample_manual\<lparr> speakInFlight := [(0, sample_speak_request)],
                      speakCurrent := Some 0, nextMutationId := Suc 0,
                      mstore := initialState\<lparr> isLoading := True \<rparr> \<rparr>"
  by (simp add: handleSpeak_def sample_manual_fields trim_hi speakMutation_mutate_def
      speakMutation_onMutate_def setIsLoading_def sample_speak_request_def)







lemma sendInFlight_fulfilled:
  "sendInFlight (sendMessage_fulfilled r data s) = remove1 r (sendInFlight s)"
  by (simp add: sendMessage_fulfilled_def sendMessageMutation_onSettled_def
      sendMessageMutation_onSuccess_def Let_def)

lemma sendInFlight_rejected:
  "sendInFlight (sendMessage_rejected r now s) = remove1 r (sendInFlight s)"
  by (simp add: sendMessage_rejected_def sendMessageMutation_onSettled_def
      sendMessageMutation_onError_def)







lemma handleSend_accepts:
  "trim (input s) \<noteq> [] \<Longrightarrow> \<not> isLoading (store s) \<Longrightarrow>
   sendInFlight (handleSend c i t s)
     = sendInFlight s @ [\<lparr> req_message = trim (input s), req_clone_id = c, req_image_id = i,
          req_conversation_id =
            (if truthy (localConversationId s) then localConversationId s else None),
          req_generate_video = True \<rparr>]"
  by (simp add: handleSend_def Let_def sendMessageMutation_mutate_def
      sendMessageMutation_onMutate_def)













lemma speak_fulfilled_frame:
  "speakInFlight (speak_fulfilled p data now s) = filter (\<lambda>x. fst x \<noteq> fst p) (speakInFlight s)"
  "previewInFlight (speak_fulfilled p data now s) = previewInFlight s"
  "speakCurrent (speak_fulfilled p data now s) = speakCurrent s"
  "previewCurrent (speak_fulfilled p data now s) = previewCurrent s"
  by (simp_all add: speak_fulfilled_def speakMutation_onSettled_def speakMutation_onSuccess_def
      Let_def)

lemma speak_rejected_frame:
  "speakInFlight (speak_rejected p s) = filter (\<lambda>x. fst x \<noteq> fst p) (speakInFlight s)"
  "previewInFlight (speak_rejected p s) = previewInFlight s"
  "speakCurrent (speak_rejected p s) = speakCurrent s"
  "previewCurrent (speak_rejected p s) = previewCurrent s"
  by (simp_all add: speak_rejected_def speakMutation_onSettled_def speakMutation_onError_def)






text \<open>
  The two handlers of the manual component have no guard of their own against an
  unresolved request: with a non-blank text they start a request in every state.
\<close>

lemma manual_handlers_unguarded:
  "trim (textValue m) \<noteq> [] \<Longrightarrow>
   speakInFlight (handleSpeak c i m)
     = speakInFlight m @ [(nextMutationId m, \<lparr> speak_text = trim (textValue m),
          speak_clone_id = c, speak_image_id = i, speak_preview_only = previewOnly m \<rparr>)]"
  "trim (textValue m) \<noteq> [] \<Longrightarrow>
   previewInFlight (handlePreview c m)
     = previewInFlight m @ [(nextMutationId m, \<lparr> preview_text = trim (textValue m),
          preview_cloneId = c \<rparr>)]"
  by (simp_all add: handleSpeak_def handlePreview_def speakMutation_mutate_def
      speakMutation_onMutate_def previewMutation_mutate_def)




section \<open>Failed requests\<close>

lemma sendMessage_rejected_eq:
  "sendMessage_rejected r now s
     = s\<lparr> sendInFlight := remove1 r (sendInFlight s),
           store := (store s)\<lparr> messages := messages (store s) @ [error_turn now],
                                isLoading := False \<rparr> \<rparr>"
  by (simp add: sendMessage_rejected_def sendMessageMutation_onSettled_def
      sendMessageMutation_onError_def setIsLoading_def addMessage_def error_turn_def)

lemma sendMessage_fulfilled_fields:
  "messages (store (sendMessage_fulfilled r data s)) = messages (store s) @ [resp_response data]"
  "isLoading (store (sendMessage_fulfilled r data s)) = False"
  "localConversationId (sendMessage_fulfilled r data s) = Some (resp_conversation_id data)"
  "input (sendMessage_fulfilled r data s) = input s"
  by (simp_all add: sendMessage_fulfilled_def sendMessageMutation_onSettled_def
      sendMessageMutation_onSuccess_def Let_def setIsLoading_def addMessage_def
      setCurrentVideo_def setCurrentAudio_def)

lemma sendMessage_fulfilled_ignores_status:
  "sendMessage_fulfilled r (data\<lparr> resp_status := a \<rparr>) s
     = sendMessage_fulfilled r (data\<lparr> resp_status := b \<rparr>) s"
  by (simp add: sendMessage_fulfilled_def sendMessageMutation_onSuccess_def Let_def)

lemma speak_rejected_eq:
  "speak_rejected q m
     = m\<lparr> speakInFlight := filter (\<lambda>p. fst p \<noteq> fst q) (speakInFlight m),
           mstore := (mstore m)\<lparr> isLoading := False \<rparr> \<rparr>"
  by (simp add: speak_rejected_def speakMutation_onSettled_def speakMutation_onError_def
      setIsLoading_def)

lemma speak_fulfilled_failed_eq:
  "speak_fulfilled q (data\<lparr> speak_resp_status := Failed, speak_resp_video_url := None,
       speak_resp_audio_url := None \<rparr>) now m
     = m\<lparr> speakInFlight := filter (\<lambda>p. fst p \<noteq> fst q) (speakInFlight m),
           history := \<lparr> task_id = speak_resp_task_id data, task_text = speak_resp_text data,
                        task_status = Failed, task_video_url = None, task_audio_url = None,
                        task_timestamp = now \<rparr> # take 9 (history m),
           textValue := [],
           mstore := (mstore m)\<lparr> isLoading := False \<rparr> \<rparr>"
  by (simp add: speak_fulfilled_def speakMutation_onSettled_def speakMutation_onSuccess_def
      Let_def setIsLoading_def)

lemma failed_entry_inert:
  "playFromHistory \<lparr> task_id = a, task_text = b, task_status = Failed, task_video_url = None,
       task_audio_url = None, task_timestamp = now \<rparr> x = x"
  by (simp add: playFromHistory_def)

lemma button_enabled_when_idle:
  "speakInFlight m = [] \<Longrightarrow> previewInFlight m = [] \<Longrightarrow> trim (textValue m) \<noteq> [] \<Longrightarrow>
   button_disabled m = False"
  by (simp add: button_disabled_def manualIsLoading_def speakMutation_isPending_def
      previewMutation_isPending_def split: option.splits)

text \<open>
  Claim C3, as stated, fails. In conversation mode a send that is fulfilled with a
  response of status \<open>failed\<close> is handled like any other fulfilled send: the status is
  not read, no synthetic turn is made, and the reply turn of the response, here an empty
  one, is appended as it is. And in manual mode a speak request that is rejected leaves
  no entry in the history and nothing else to see: the store, the text and the history
  are as before the submission.
\<close>

theorem failed_status_not_surfaced:
  "resp_status sample_failed_chat_response = Failed
   \<and> messages (store (sendMessage_fulfilled sample_chat_request sample_failed_chat_response
        (chat_run [0x63] [0x69] initialState sample_chat_events)))
       = [\<lparr> role = User, content = [0x68, 0x69], timestamp = [0x74],
             msg_audio_url = None, msg_video_url = None \<rparr>,
          \<lparr> role = Assistant, content = [], timestamp = [0x75],
             msg_audio_url = None, msg_video_url = None \<rparr>]
   \<and> history (speak_rejected (0, sample_speak_request)
        (handleSpeak [0x63] [0x69] sample_manual)) = []
   \<and> mstore (speak_rejected (0, sample_speak_request)
        (handleSpeak [0x63] [0x69] sample_manual)) = mstore sample_manual
   \<and> textValue (speak_rejected (0, sample_speak_request)
        (handleSpeak [0x63] [0x69] sample_manual)) = textValue sample_manual"
proof -
  have a: "messages (store (sendMessage_fulfilled sample_chat_request sample_failed_chat_response
        (chat_run [0x63] [0x69] initialState sample_chat_events)))
       = [\<lparr> role = User, content = [0x68, 0x69], timestamp = [0x74],
             msg_audio_url = None, msg_video_url = None \<rparr>,
          \<lparr> role = Assistant, content = [], timestamp = [0x75],
             msg_audio_url = None, msg_video_url = None \<rparr>]"
    by (simp add: sendMessage_fulfilled_fields sample_chat_run sample_failed_chat_response_def)
  have b: "mstore (speak_rejected (0, sample_speak_request)
        (handleSpeak [0x63] [0x69] sample_manual)) = mstore sample_manual"
    by (simp add: speak_rejected_eq handleSpeak_sample sample_manual_fields initialState_def)
  have c: "history (speak_rejected (0, sample_speak_request)
        (handleSpeak [0x63] [0x69] sample_manual)) = []"
    "textValue (speak_rejected (0, sample_speak_request)
        (handleSpeak [0x63] [0x69] sample_manual)) = textValue sample_manual"
    by (simp_all add: speak_rejected_eq handleSpeak_sample sample_manual_fields)
  from a b c show ?thesis
    by (simp add: sample_failed_chat_response_def)
qed

text \<open>
  Claim C3, amended. In conversation mode the synthetic assistant turn with the fixed
  error text is appended when the send request itself fails (is rejected); a send
  fulfilled with a response of status \<open>failed\<close> is handled as any fulfilled send, the
  status unread and the reply turn of the response appended as it is. In manual mode a
  speak request fulfilled with a response of status \<open>failed\<close> and no media is recorded at
  the head of the history as an inert entry with no media (selecting it plays nothing),
  the text buffer is cleared and the media references are untouched; a speak request
  that itself fails is only logged, with no entry added and text and media references
  unchanged. In all four cases the loading flag is cleared and the request leaves the
  unresolved ones; if it was the only one, none is unresolved afterwards, so the next
  send with a non-blank input is accepted, and the manual buttons are enabled for a
  non-blank text.
\<close>

theorem failure_handling:
  "sendMessage_rejected r now s
     = s\<lparr> sendInFlight := remove1 r (sendInFlight s),
           store := (store s)\<lparr> messages := messages (store s) @ [error_turn now],
                                isLoading := False \<rparr> \<rparr>
   \<and> messages (store (sendMessage_fulfilled r data s)) = messages (store s) @ [resp_response data]
   \<and> isLoading (store (sendMessage_fulfilled r data s)) = False
   \<and> sendInFlight (sendMessage_fulfilled r data s) = remove1 r (sendInFlight s)
   \<and> sendMessage_fulfilled r (data\<lparr> resp_status := Failed \<rparr>) s
       = sendMessage_fulfilled r (data\<lparr> resp_status := Completed \<rparr>) s
   \<and> speak_fulfilled q (sdata\<lparr> speak_resp_status := Failed, speak_resp_video_url := None,
         speak_resp_audio_url := None \<rparr>) t m
       = m\<lparr> speakInFlight := filter (\<lambda>p. fst p \<noteq> fst q) (speakInFlight m),
             history := \<lparr> task_id = speak_resp_task_id sdata, task_text = speak_resp_text sdata,
                          task_status = Failed, task_video_url = None, task_audio_url = None,
                          task_timestamp = t \<rparr> # take 9 (history m),
             textValue := [],
             mstore := (mstore m)\<lparr> isLoading := False \<rparr> \<rparr>
   \<and> playFromHistory \<lparr> task_id = speak_resp_task_id sdata, task_text = speak_resp_text sdata,
                        task_status = Failed, task_video_url = None, task_audio_url = None,
                        task_timestamp = t \<rparr> x = x
   \<and> speak_rejected q m
       = m\<lparr> speakInFlight := filter (\<lambda>p. fst p \<noteq> fst q) (speakInFlight m),
             mstore := (mstore m)\<lparr> isLoading := False \<rparr> \<rparr>
   \<and> (sendInFlight s = [r] \<and> trim v \<noteq> [] \<longrightarrow>
        sendInFlight (sendMessage_rejected r now s) = []
        \<and> sendInFlight (sendMessage_fulfilled r data s) = []
        \<and> sendInFlight (handleSend c i now' ((sendMessage_rejected r now s)\<lparr> input := v \<rparr>))
            = [\<lparr> req_message = trim v, req_clone_id = c, req_image_id = i,
                 req_conversation_id =
                   (if truthy (localConversationId s) then localConversationId s else None),
                 req_generate_video = True \<rparr>]
        \<and> sendInFlight (handleSend c i now' ((sendMessage_fulfilled r data s)\<lparr> input := v \<rparr>))
            = [\<lparr> req_message = trim v, req_clone_id = c, req_image_id = i,
                 req_conversation_id =
                   (if resp_conversation_id data \<noteq> [] then Some (resp_conversation_id data)
                    else None),
                 req_generate_video = True \<rparr>])
   \<and> (speakInFlight m = [q] \<and> previewInFlight m = [] \<and> trim w \<noteq> [] \<longrightarrow>
        speakInFlight (speak_rejected q m) = []
        \<and> speakInFlight (speak_fulfilled q sdata t m) = []
        \<and> button_disabled ((speak_rejected q m)\<lparr> textValue := w \<rparr>) = False
        \<and> button_disabled ((speak_fulfilled q sdata t m)\<lparr> textValue := w \<rparr>) = False)"
proof -
  have a: "sendInFlight s = [r] \<and> trim v \<noteq> [] \<longrightarrow>
        sendInFlight (sendMessage_rejected r now s) = []
        \<and> sendInFlight (sendMessage_fulfilled r data s) = []
        \<and> sendInFlight (handleSend c i now' ((sendMessage_rejected r now s)\<lparr> input := v \<rparr>))
            = [\<lparr> req_message = trim v, req_clone_id = c, req_image_id = i,
                 req_conversation_id =
                   (if truthy (localConversationId s) then localConversationId s else None),
                 req_generate_video = True \<rparr>]
        \<and> sendInFlight (handleSend c i now' ((sendMessage_fulfilled r data s)\<lparr> input := v \<rparr>))
            = [\<lparr> req_message = trim v, req_clone_id = c, req_image_id = i,
                 req_conversation_id =
                   (if resp_conversation_id data \<noteq> [] then Some (resp_conversation_id data)
                    else None),
                 req_generate_video = True \<rparr>]"
    by (simp add: sendInFlight_rejected sendInFlight_fulfilled handleSend_accepts
        sendMessage_rejected_eq sendMessage_fulfilled_fields)
  have b: "speakInFlight m = [q] \<and> previewInFlight m = [] \<and> trim w \<noteq> [] \<longrightarrow>
        speakInFlight (speak_rejected q m) = []
        \<and> speakInFlight (speak_fulfilled q sdata t m) = []
        \<and> button_disabled ((speak_rejected q m)\<lparr> textValue := w \<rparr>) = False
        \<and> button_disabled ((speak_fulfilled q sdata t m)\<lparr> textValue := w \<rparr>) = False"
    by (simp add: speak_rejected_frame speak_fulfilled_frame button_enabled_when_idle)
  have c: "messages (store (sendMessage_fulfilled r data s)) = messages (store s) @ [resp_response data]
   \<and> isLoading (store (sendMessage_fulfilled r data s)) = False
   \<and> sendInFlight (sendMessage_fulfilled r data s) = remove1 r (sendInFlight s)"
    by (simp add: sendMessage_fulfilled_fields sendInFlight_fulfilled)
  from a b c show ?thesis
    using sendMessage_rejected_eq [of r now s] speak_rejected_eq [of q m]
      sendMessage_fulfilled_ignores_status [where r = r and data = data and a = Failed
        and b = Completed and s = s]
      speak_fulfilled_failed_eq [where q = q and data = sdata and now = t and m = m]
      failed_entry_inert [where a = "speak_resp_task_id sdata" and b = "speak_resp_text sdata"
        and now = t and x = x]
    by blast
qed

theorem failure_handling_witness:
  "messages (store (sendMessage_rejected sample_chat_request [0x75]
       (chat_run [0x63] [0x69] initialState sample_chat_events)))
     = [\<lparr> role = User, content = [0x68, 0x69], timestamp = [0x74],
           msg_audio_url = None, msg_video_url = None \<rparr>, error_turn [0x75]]
   \<and> sendInFlight (chat_run [0x63] [0x69] initialState sample_chat_events)
       = [sample_chat_request]
   \<and> sendInFlight (sendMessage_rejected sample_chat_request [0x75]
       (chat_run [0x63] [0x69] initialState sample_chat_events)) = []
   \<and> sendInFlight (sendMessage_fulfilled sample_chat_request sample_failed_chat_response
       (chat_run [0x63] [0x69] initialState sample_chat_events)) = []
   \<and> sendInFlight (handleSend [0x63] [0x69] [0x76]
        ((sendMessage_rejected sample_chat_request [0x75]
           (chat_run [0x63] [0x69] initialState sample_chat_events))\<lparr> input := [0x68, 0x69] \<rparr>))
       = [sample_chat_request]
   \<and> sendInFlight (handleSend [0x63] [0x69] [0x76]
        ((sendMessage_fulfilled sample_chat_request sample_failed_chat_response
           (chat_run [0x63] [0x69] initialState sample_chat_events))\<lparr> input := [0x68, 0x69] \<rparr>))
       = [sample_chat_request\<lparr> req_conversation_id := Some [0x6B] \<rparr>]
   \<and> speakInFlight (handleSpeak [0x63] [0x69] sample_manual) = [(0, sample_speak_request)]
   \<and> speakInFlight (speak_rejected (0, sample_speak_request)
        (handleSpeak [0x63] [0x69] sample_manual)) = []
   \<and> speakInFlight (speak_fulfilled (0, sample_speak_request) sample_failed_speak_response 7
        (handleSpeak [0x63] [0x69] sample_manual)) = []
   \<and> button_disabled ((speak_rejected (0, sample_speak_request)
        (handleSpeak [0x63] [0x69] sample_manual))\<lparr> textValue := [0x68, 0x69] \<rparr>) = False
   \<and> button_disabled ((speak_fulfilled (0, sample_speak_request) sample_failed_speak_response 7
        (handleSpeak [0x63] [0x69] sample_manual))\<lparr> textValue := [0x68, 0x69] \<rparr>) = False"
proof -
  let ?s = "chat_run [0x63] [0x69] initialState sample_chat_events"
  let ?m = "handleSpeak [0x63] [0x69] sample_manual"
  let ?q = "(0 :: nat, sample_speak_request)"
  let ?s1 = "sendMessage_rejected sample_chat_request [0x75] ?s"
  let ?s2 = "sendMessage_fulfilled sample_chat_request sample_failed_chat_response ?s"
  let ?m1 = "speak_rejected ?q ?m"
  let ?m2 = "speak_fulfilled ?q sample_failed_speak_response 7 ?m"
  note T = failure_handling [where r = sample_chat_request and now = "[0x75]" and s = ?s
      and data = sample_failed_chat_response and q = ?q
      and sdata = sample_failed_speak_response and t = 7 and m = ?m and x = ?m
      and v = "[0x68, 0x69]" and c = "[0x63]" and i = "[0x69]" and now' = "[0x76]"
      and w = "[0x68, 0x69]"]
  have h1: "sendInFlight ?s = [sample_chat_request] \<and> trim [0x68, 0x69] \<noteq> []"
    by (simp add: sample_chat_run trim_hi)
  have h2: "speakInFlight ?m = [?q] \<and> previewInFlight ?m = [] \<and> trim [0x68, 0x69] \<noteq> []"
    by (simp add: handleSpeak_sample sample_manual_fields trim_hi)
  have f: "localConversationId ?s = None" "messages (store ?s) = [\<lparr> role = User,
      content = [0x68, 0x69], timestamp = [0x74], msg_audio_url = None, msg_video_url = None \<rparr>]"
    by (simp_all add: sample_chat_run)
  have g: "resp_conversation_id sample_failed_chat_response = [0x6B]"
    by (simp add: sample_failed_chat_response_def)
  from T have "?s1 = ?s\<lparr> sendInFlight := remove1 sample_chat_request (sendInFlight ?s),
           store := (store ?s)\<lparr> messages := messages (store ?s) @ [error_turn [0x75]],
                                isLoading := False \<rparr> \<rparr>"
    by (rule conjunct1)
  then have k0: "messages (store ?s1) = messages (store ?s) @ [error_turn [0x75]]"
    by simp
  from T h1 have k1: "sendInFlight ?s1 = [] \<and> sendInFlight ?s2 = []
        \<and> sendInFlight (handleSend [0x63] [0x69] [0x76] (?s1\<lparr> input := [0x68, 0x69] \<rparr>))
            = [\<lparr> req_message = trim [0x68, 0x69], req_clone_id = [0x63], req_image_id = [0x69],
                 req_conversation_id =
                   (if truthy (localConversationId ?s) then localConversationId ?s else None),
                 req_generate_video = True \<rparr>]
        \<and> sendInFlight (handleSend [0x63] [0x69] [0x76] (?s2\<lparr> input := [0x68, 0x69] \<rparr>))
            = [\<lparr> req_message = trim [0x68, 0x69], req_clone_id = [0x63], req_image_id = [0x69],
                 req_conversation_id =
                   (if resp_conversation_id sample_failed_chat_response \<noteq> []
                    then Some (resp_conversation_id sample_failed_chat_response) else None),
                 req_generate_video = True \<rparr>]"
    by blast
  from T h2 have k2: "speakInFlight ?m1 = [] \<and> speakInFlight ?m2 = []
        \<and> button_disabled (?m1\<lparr> textValue := [0x68, 0x69] \<rparr>) = False
        \<and> button_disabled (?m2\<lparr> textValue := [0x68, 0x69] \<rparr>) = False"
    by blast
  from h1 h2 k0 k1 k2 show ?thesis
    by (simp add: f g trim_hi sample_chat_request_def)
qed

section \<open>Playback precedence\<close>

text \<open>
  Claim C4. A reference is set when it holds a URL (it is neither null nor empty, the
  test the component makes). Whenever the video reference is set, the audio element is
  not rendered, the audio effect does not play, and the video is what the container
  shows and the video effect plays; so the audio element is rendered, and the audio
  effect plays, only when no video reference is set. And when a fulfilled speak or chat
  result carries a video URL, with or without an audio URL beside it, the video URL is
  the one written to the store: the current video reference becomes that URL and the
  current audio reference is left as it was.
\<close>

theorem video_takes_precedence:
  "(truthy (currentVideoUrl st) \<longrightarrow>
      audio_rendered st = False \<and> audio_effect_plays st = False \<and> video_effect_plays st)
   \<and> (audio_rendered st \<longrightarrow> truthy (currentVideoUrl st) = False)
   \<and> (audio_effect_plays st \<longrightarrow> truthy (currentVideoUrl st) = False)
   \<and> (currentVideoUrl st = Some u \<and> u \<noteq> [] \<longrightarrow> avatar_container st = VideoPlayer u)
   \<and> (truthy (speak_resp_video_url data) \<longrightarrow>
        currentVideoUrl (mstore (speakMutation_onSuccess data now m)) = speak_resp_video_url data
        \<and> currentAudioUrl (mstore (speakMutation_onSuccess data now m)) = currentAudioUrl (mstore m)
        \<and> audio_rendered (mstore (speakMutation_onSuccess data now m)) = False)
   \<and> (truthy (msg_video_url (resp_response cdata)) \<longrightarrow>
        currentVideoUrl (store (sendMessageMutation_onSuccess cdata s))
          = msg_video_url (resp_response cdata)
        \<and> currentAudioUrl (store (sendMessageMutation_onSuccess cdata s))
          = currentAudioUrl (store s)
        \<and> audio_rendered (store (sendMessageMutation_onSuccess cdata s)) = False)"
proof -
  have a: "truthy (currentVideoUrl st) \<longrightarrow>
      audio_rendered st = False \<and> audio_effect_plays st = False \<and> video_effect_plays st"
    by (simp add: audio_rendered_def audio_effect_plays_def video_effect_plays_def)
  have b: "audio_rendered st \<longrightarrow> truthy (currentVideoUrl st) = False"
    by (simp add: audio_rendered_def)
  have c: "audio_effect_plays st \<longrightarrow> truthy (currentVideoUrl st) = False"
    by (simp add: audio_effect_plays_def)
  have d: "currentVideoUrl st = Some u \<and> u \<noteq> [] \<longrightarrow> avatar_container st = VideoPlayer u"
    by (simp add: avatar_container_def)
  have e: "truthy (speak_resp_video_url data) \<longrightarrow>
        currentVideoUrl (mstore (speakMutation_onSuccess data now m)) = speak_resp_video_url data
        \<and> currentAudioUrl (mstore (speakMutation_onSuccess data now m)) = currentAudioUrl (mstore m)
        \<and> audio_rendered (mstore (speakMutation_onSuccess data now m)) = False"
    by (simp add: speakMutation_onSuccess_def Let_def setCurrentVideo_def audio_rendered_def)
  have f: "truthy (msg_video_url (resp_response cdata)) \<longrightarrow>
        currentVideoUrl (store (sendMessageMutation_onSuccess cdata s))
          = msg_video_url (resp_response cdata)
        \<and> currentAudioUrl (store (sendMessageMutation_onSuccess cdata s))
          = currentAudioUrl (store s)
        \<and> audio_rendered (store (sendMessageMutation_onSuccess cdata s)) = False"
    by (simp add: sendMessageMutation_onSuccess_def Let_def setCurrentVideo_def addMessage_def
        audio_rendered_def)
  from a b c d e f show ?thesis by blast
qed

theorem video_takes_precedence_witness:
  "truthy (currentVideoUrl sample_store_both) \<and> truthy (currentAudioUrl sample_store_both)
   \<and> audio_rendered sample_store_both = False
   \<and> audio_effect_plays sample_store_both = False
   \<and> video_effect_plays sample_store_both
   \<and> avatar_container sample_store_both = VideoPlayer [0x76]
   \<and> audio_rendered sample_store_audio \<and> audio_effect_plays sample_store_audio
   \<and> truthy (currentVideoUrl sample_store_audio) = False
   \<and> currentVideoUrl (mstore (speakMutation_onSuccess sample_speak_response 0 sample_manual))
       = Some [0x76]
   \<and> currentAudioUrl (mstore (speakMutation_onSuccess sample_speak_response 0 sample_manual))
       = None
   \<and> currentVideoUrl (store (sendMessageMutation_onSuccess sample_chat_response
        (chat_run [0x63] [0x69] initialState sample_chat_events))) = Some [0x76]
   \<and> currentAudioUrl (store (sendMessageMutation_onSuccess sample_chat_response
        (chat_run [0x63] [0x69] initialState sample_chat_events))) = None"
proof -
  let ?s = "chat_run [0x63] [0x69] initialState sample_chat_events"
  note T1 = video_takes_precedence [of sample_store_both "[0x76]" sample_speak_response 0
      sample_manual sample_chat_response ?s]
  note T2 = video_takes_precedence [of sample_store_audio "[0x76]" sample_speak_response 0
      sample_manual sample_chat_response ?s]
  have h1: "truthy (currentVideoUrl sample_store_both)"
    "truthy (currentAudioUrl sample_store_both)"
    "currentVideoUrl sample_store_both = Some [0x76] \<and> [0x76 :: 16 word] \<noteq> []"
    by (simp_all add: sample_store_both_def)
  have h2: "audio_rendered sample_store_audio" "audio_effect_plays sample_store_audio"
    by (simp_all add: sample_store_audio_def audio_rendered_def audio_effect_plays_def
        initialState_def)
  have h3: "truthy (speak_resp_video_url sample_speak_response)"
    "speak_resp_video_url sample_speak_response = Some [0x76]"
    by (simp_all add: sample_speak_response_def)
  have h4: "truthy (msg_video_url (resp_response sample_chat_response))"
    "msg_video_url (resp_response sample_chat_response) = Some [0x76]"
    by (simp_all add: sample_chat_response_def)
  have f1: "currentAudioUrl (mstore sample_manual) = None"
    by (simp add: sample_manual_fields initialState_def)
  have f2: "currentAudioUrl (store ?s) = None"
    unfolding sample_chat_run by (simp add: initialState_def)
  from T1 h1 have k1: "audio_rendered sample_store_both = False
      \<and> audio_effect_plays sample_store_both = False \<and> video_effect_plays sample_store_both
      \<and> avatar_container sample_store_both = VideoPlayer [0x76]"
    by blast
  from T2 h2 have k2: "truthy (currentVideoUrl sample_store_audio) = False"
    by blast
  from T1 h3(1) have k3:
    "currentVideoUrl (mstore (speakMutation_onSuccess sample_speak_response 0 sample_manual))
       = speak_resp_video_url sample_speak_response
     \<and> currentAudioUrl (mstore (speakMutation_onSuccess sample_speak_response 0 sample_manual))
       = currentAudioUrl (mstore sample_manual)"
    by blast
  from T1 h4(1) have k4:
    "currentVideoUrl (store (sendMessageMutation_onSuccess sample_chat_response ?s))
       = msg_video_url (resp_response sample_chat_response)
     \<and> currentAudioUrl (store (sendMessageMutation_onSuccess sample_chat_response ?s))
       = currentAudioUrl (store ?s)"
    by blast
  from h1 h2 k1 k2 k3 k4 show ?thesis
    by (simp add: h3(2) h4(2) f1 f2)
qed

end
